theory Spec2Isabelle
  imports Main
begin

section \<open>Python strings\<close>

text \<open>
  The server works on Python \<open>str\<close> values. A string is modelled as a list of 8-bit
  characters, each standing for the code point of the same number (\<open>0\<close> to \<open>255\<close>,
  ASCII and Latin-1). The library methods the server calls are written out for these
  code points as Python's Unicode tables have them.
\<close>

definition ascii_uppercase :: string where
  "ascii_uppercase = ''ABCDEFGHIJKLMNOPQRSTUVWXYZ''"

definition ascii_lowercase :: string where
  "ascii_lowercase = ''abcdefghijklmnopqrstuvwxyz''"

text \<open>
  The Latin-1 capital letters \<open>0xC0\<close> to \<open>0xDE\<close> without the multiplication sign
  \<open>0xD7\<close>, and their small letters \<open>0xE0\<close> to \<open>0xFE\<close> without the division sign
  \<open>0xF7\<close>, in the same order.
\<close>

definition latin1_uppercase :: string where
  "latin1_uppercase =
     [CHR 0xC0, CHR 0xC1, CHR 0xC2, CHR 0xC3, CHR 0xC4, CHR 0xC5, CHR 0xC6, CHR 0xC7,
      CHR 0xC8, CHR 0xC9, CHR 0xCA, CHR 0xCB, CHR 0xCC, CHR 0xCD, CHR 0xCE, CHR 0xCF,
      CHR 0xD0, CHR 0xD1, CHR 0xD2, CHR 0xD3, CHR 0xD4, CHR 0xD5, CHR 0xD6,
      CHR 0xD8, CHR 0xD9, CHR 0xDA, CHR 0xDB, CHR 0xDC, CHR 0xDD, CHR 0xDE]"

definition latin1_lowercase :: string where
  "latin1_lowercase =
     [CHR 0xE0, CHR 0xE1, CHR 0xE2, CHR 0xE3, CHR 0xE4, CHR 0xE5, CHR 0xE6, CHR 0xE7,
      CHR 0xE8, CHR 0xE9, CHR 0xEA, CHR 0xEB, CHR 0xEC, CHR 0xED, CHR 0xEE, CHR 0xEF,
      CHR 0xF0, CHR 0xF1, CHR 0xF2, CHR 0xF3, CHR 0xF4, CHR 0xF5, CHR 0xF6,
      CHR 0xF8, CHR 0xF9, CHR 0xFA, CHR 0xFB, CHR 0xFC, CHR 0xFD, CHR 0xFE]"

definition uppercase :: string where
  "uppercase = ascii_uppercase @ latin1_uppercase"

definition lowercase :: string where
  "lowercase = ascii_lowercase @ latin1_lowercase"

definition lower_char :: "char \<Rightarrow> char" where
  "lower_char c = (case map_of (zip uppercase lowercase) c of
                     Some d \<Rightarrow> d | None \<Rightarrow> c)"

definition upper_char :: "char \<Rightarrow> char" where
  "upper_char c = (case map_of (zip lowercase uppercase) c of
                     Some d \<Rightarrow> d | None \<Rightarrow> c)"

text \<open>\<open>s.lower()\<close>\<close>

definition lower :: "string \<Rightarrow> string" where
  "lower s = map lower_char s"

text \<open>
  The cased characters: the letters above and five more small ones, the ordinal
  indicators \<open>0xAA\<close> and \<open>0xBA\<close>, the micro sign \<open>0xB5\<close>, the sharp s \<open>0xDF\<close> and the
  y with diaeresis \<open>0xFF\<close>.
\<close>

definition is_cased :: "char \<Rightarrow> bool" where
  "is_cased c \<longleftrightarrow>
     c \<in> set (uppercase @ lowercase @ [CHR 0xAA, CHR 0xB5, CHR 0xBA, CHR 0xDF, CHR 0xFF])"

text \<open>
  The title case of one character: the capital of a small letter, \<open>Ss\<close> for the sharp
  s, the character itself otherwise. The title cases of the micro sign and of the y
  with diaeresis are the code points \<open>0x39C\<close> and \<open>0x178\<close>, which are no 8-bit
  characters: here the two are left as they are, and what is proved below about
  \<open>title\<close> is said only of strings without them.
\<close>

definition totitle :: "char \<Rightarrow> string" where
  "totitle c = (if c = CHR 0xDF then ''Ss'' else [upper_char c])"

text \<open>
  \<open>s.title()\<close>: a character that follows a cased character is put in lower case, any
  other character in title case. The flag says whether the previous character was
  cased.
\<close>

fun title_from :: "bool \<Rightarrow> string \<Rightarrow> string" where
  "title_from previous_is_cased [] = []"
| "title_from previous_is_cased (c # cs) =
     (if previous_is_cased then [lower_char c] else totitle c) @ title_from (is_cased c) cs"

definition title :: "string \<Rightarrow> string" where
  "title s = title_from False s"

text \<open>\<open>s.startswith(pre)\<close>\<close>

fun starts_with :: "string \<Rightarrow> string \<Rightarrow> bool" where
  "starts_with [] s = True"
| "starts_with (p # ps) [] = False"
| "starts_with (p # ps) (c # cs) = (p = c \<and> starts_with ps cs)"

text \<open>\<open>sub in s\<close>: \<open>sub\<close> occurs in \<open>s\<close> at some position.\<close>

fun contains :: "string \<Rightarrow> string \<Rightarrow> bool" where
  "contains sub [] = starts_with sub []"
| "contains sub (c # cs) = (starts_with sub (c # cs) \<or> contains sub cs)"

text \<open>
  \<open>s.split(sep)\<close> for a non-empty separator: the text is scanned from the left, each
  occurrence of the separator closes the piece collected so far and the scan goes on
  behind it; the end of the text closes the last piece. (Python raises \<open>ValueError\<close>
  for an empty separator; the server splits at a constant.)
\<close>

fun split_from :: "string \<Rightarrow> string \<Rightarrow> string \<Rightarrow> string list" where
  "split_from sep piece [] = [piece]"
| "split_from sep piece (c # cs) =
     (if sep \<noteq> [] \<and> starts_with sep (c # cs)
      then piece # split_from sep [] (drop (length sep) (c # cs))
      else split_from sep (piece @ [c]) cs)"

definition split_str :: "string \<Rightarrow> string \<Rightarrow> string list" where
  "split_str sep s = split_from sep [] s"

text \<open>
  \<open>s.replace(old, new)\<close> for a non-empty \<open>old\<close>: every occurrence found by the same
  left-to-right scan is replaced.
\<close>

fun replace_str :: "string \<Rightarrow> string \<Rightarrow> string \<Rightarrow> string" where
  "replace_str old new [] = []"
| "replace_str old new (c # cs) =
     (if old \<noteq> [] \<and> starts_with old (c # cs)
      then new @ replace_str old new (drop (length old) (c # cs))
      else c # replace_str old new cs)"

text \<open>
  \<open>s.strip()\<close> removes white space at both ends: tab, line feed, vertical tab, form
  feed, carriage return, the four separators \<open>0x1C\<close> to \<open>0x1F\<close>, the space, the next-line
  control \<open>0x85\<close> and the no-break space \<open>0xA0\<close>.
\<close>

definition isspace :: "char \<Rightarrow> bool" where
  "isspace c \<longleftrightarrow> c \<in> set [CHR 0x09, CHR 0x0A, CHR 0x0B, CHR 0x0C, CHR 0x0D,
                           CHR 0x1C, CHR 0x1D, CHR 0x1E, CHR 0x1F, CHR 0x20,
                           CHR 0x85, CHR 0xA0]"

definition strip :: "string \<Rightarrow> string" where
  "strip s = rev (dropWhile isspace (rev (dropWhile isspace s)))"

text \<open>\<open>d.get(key, default)\<close> on a dictionary given as an association list.\<close>

definition dict_get :: "(string \<times> string) list \<Rightarrow> string \<Rightarrow> string \<Rightarrow> string" where
  "dict_get d key dflt = (case map_of d key of Some v \<Rightarrow> v | None \<Rightarrow> dflt)"

section \<open>The template fallback: \<open>get_template_code\<close>\<close>

text \<open>The result dictionary \<open>{"code": ..., "explanation": ...}\<close>.\<close>

record generated =
  code :: string
  explanation :: string

subsection \<open>The template texts\<close>

definition javascript_react_component :: string where
  \<open>javascript_react_component =
     ''import React, { useState, useEffect } from 'react';\<newline>'' @
     ''\<newline>'' @
     ''const MyComponent = () => {\<newline>'' @
     ''  const [data, setData] = useState(null);\<newline>'' @
     ''  const [loading, setLoading] = useState(true);\<newline>'' @
     ''\<newline>'' @
     ''  useEffect(() => {\<newline>'' @
     ''    // Fetch data or initialize component\<newline>'' @
     ''    setLoading(false);\<newline>'' @
     ''  }, []);\<newline>'' @
     ''\<newline>'' @
     ''  if (loading) return <div>Loading...</div>;\<newline>'' @
     ''\<newline>'' @
     ''  return (\<newline>'' @
     ''    <div className="my-component">\<newline>'' @
     ''      <h1>My Component</h1>\<newline>'' @
     ''      {/* Add your content here */}\<newline>'' @
     ''    </div>\<newline>'' @
     ''  );\<newline>'' @
     ''};\<newline>'' @
     ''\<newline>'' @
     ''export default MyComponent;''\<close>

definition javascript_api_endpoint :: string where
  \<open>javascript_api_endpoint =
     ''const express = require('express');\<newline>'' @
     ''const router = express.Router();\<newline>'' @
     ''\<newline>'' @
     ''// GET endpoint\<newline>'' @
     ''router.get('/api/data', async (req, res) => {\<newline>'' @
     ''  try {\<newline>'' @
     ''    // Your logic here\<newline>'' @
     ''    res.json({ success: true, data: [] });\<newline>'' @
     ''  } catch (error) {\<newline>'' @
     ''    res.status(500).json({ error: error.message });\<newline>'' @
     ''  }\<newline>'' @
     ''});\<newline>'' @
     ''\<newline>'' @
     ''// POST endpoint\<newline>'' @
     ''router.post('/api/data', async (req, res) => {\<newline>'' @
     ''  try {\<newline>'' @
     ''    const { body } = req;\<newline>'' @
     ''    // Process data\<newline>'' @
     ''    res.json({ success: true, message: 'Data created' });\<newline>'' @
     ''  } catch (error) {\<newline>'' @
     ''    res.status(500).json({ error: error.message });\<newline>'' @
     ''  }\<newline>'' @
     ''});\<newline>'' @
     ''\<newline>'' @
     ''module.exports = router;''\<close>

definition javascript_function :: string where
  \<open>javascript_function =
     ''function myFunction(param1, param2) {\<newline>'' @
     ''  // Add your logic here\<newline>'' @
     ''  try {\<newline>'' @
     ''    const result = param1 + param2;\<newline>'' @
     ''    return result;\<newline>'' @
     ''  } catch (error) {\<newline>'' @
     ''    console.error('Error:', error);\<newline>'' @
     ''    return null;\<newline>'' @
     ''  }\<newline>'' @
     ''}''\<close>

definition python_function :: string where
  \<open>python_function =
     ''def my_function(param1, param2):\<newline>'' @
     ''    """\<newline>'' @
     ''    Description of the function\<newline>'' @
     ''    \<newline>'' @
     ''    Args:\<newline>'' @
     ''        param1: Description of param1\<newline>'' @
     ''        param2: Description of param2\<newline>'' @
     ''    \<newline>'' @
     ''    Returns:\<newline>'' @
     ''        Description of return value\<newline>'' @
     ''    """\<newline>'' @
     ''    try:\<newline>'' @
     ''        result = param1 + param2\<newline>'' @
     ''        return result\<newline>'' @
     ''    except Exception as e:\<newline>'' @
     ''        print(f"Error: {e}")\<newline>'' @
     ''        return None''\<close>

definition python_class :: string where
  \<open>python_class =
     ''class MyClass:\<newline>'' @
     ''    def __init__(self, name):\<newline>'' @
     ''        self.name = name\<newline>'' @
     ''        self.data = []\<newline>'' @
     ''    \<newline>'' @
     ''    def add_data(self, item):\<newline>'' @
     ''        """Add an item to the data list"""\<newline>'' @
     ''        self.data.append(item)\<newline>'' @
     ''        return len(self.data)\<newline>'' @
     ''    \<newline>'' @
     ''    def get_data(self):\<newline>'' @
     ''        """Get all data"""\<newline>'' @
     ''        return self.data\<newline>'' @
     ''    \<newline>'' @
     ''    def __str__(self):\<newline>'' @
     ''        return f"MyClass(name={self.name}, items={len(self.data)})"''\<close>

definition python_api :: string where
  \<open>python_api =
     ''from fastapi import FastAPI, HTTPException\<newline>'' @
     ''from pydantic import BaseModel\<newline>'' @
     ''from typing import List, Optional\<newline>'' @
     ''\<newline>'' @
     ''app = FastAPI()\<newline>'' @
     ''\<newline>'' @
     ''class Item(BaseModel):\<newline>'' @
     ''    id: Optional[int] = None\<newline>'' @
     ''    name: str\<newline>'' @
     ''    description: Optional[str] = None\<newline>'' @
     ''\<newline>'' @
     ''@app.get("/api/items")\<newline>'' @
     ''async def get_items():\<newline>'' @
     ''    return {"items": []}\<newline>'' @
     ''\<newline>'' @
     ''@app.post("/api/items")\<newline>'' @
     ''async def create_item(item: Item):\<newline>'' @
     ''    return {"message": "Item created", "item": item}\<newline>'' @
     ''\<newline>'' @
     ''@app.get("/api/items/{item_id}")\<newline>'' @
     ''async def get_item(item_id: int):\<newline>'' @
     ''    return {"item_id": item_id}''\<close>

text \<open>The dictionary \<open>templates\<close>: language, then template key.\<close>

definition templates :: "(string \<times> (string \<times> string) list) list" where
  "templates =
     [(''javascript'',
         [(''react_component'', javascript_react_component),
          (''api_endpoint'', javascript_api_endpoint),
          (''function'', javascript_function)]),
      (''python'',
         [(''function'', python_function),
          (''class'', python_class),
          (''api'', python_api)])]"

text \<open>The last \<open>return\<close> of \<open>get_template_code\<close>: the generic placeholder.\<close>

definition generic_placeholder :: "string \<Rightarrow> string \<Rightarrow> generated" where
  "generic_placeholder prompt language =
     \<lparr>code = ''// '' @ title language @ '' code for: '' @ prompt @
        ''\<newline>// Template-based generation - please provide OpenAI API key for advanced features'',
      explanation = ''Basic template generated. For advanced AI-powered code generation, please configure OpenAI API key.''\<rparr>"

text \<open>
  \<open>get_template_code(prompt, language, request_type)\<close>. The catalog of the language is
  looked up once; \<open>language in templates\<close> is the \<open>Some\<close> case. An \<open>if\<close> chain inside
  that finds no keyword falls through to the generic placeholder, as does a language
  without a catalog.
\<close>

definition get_template_code :: "string \<Rightarrow> string \<Rightarrow> string \<Rightarrow> generated" where
  "get_template_code prompt language request_type =
     (let prompt_lower = lower prompt in
      case map_of templates language of
        Some catalog \<Rightarrow>
          if contains ''react'' prompt_lower \<or> contains ''component'' prompt_lower then
            \<lparr>code = dict_get catalog ''react_component'' ''// Template not available'',
             explanation = ''Generated React component template''\<rparr>
          else if contains ''api'' prompt_lower \<or> contains ''endpoint'' prompt_lower
                  \<or> contains ''server'' prompt_lower then
            \<lparr>code = dict_get catalog ''api''
                      (dict_get catalog ''api_endpoint'' ''// Template not available''),
             explanation = ''Generated API template''\<rparr>
          else if contains ''function'' prompt_lower then
            \<lparr>code = dict_get catalog ''function'' ''// Template not available'',
             explanation = ''Generated function template''\<rparr>
          else if contains ''class'' prompt_lower \<and> language = ''python'' then
            \<lparr>code = dict_get catalog ''class'' ''# Template not available'',
             explanation = ''Generated class template''\<rparr>
          else generic_placeholder prompt language
      | None \<Rightarrow> generic_placeholder prompt language)"

section \<open>The backend invoker: \<open>generate_code_with_ai\<close>\<close>

text \<open>
  Exceptions are values. \<open>BackendError\<close> stands for whatever the chat-completion call
  raises (time-out, authentication failure, malformed payload), \<open>StoreError\<close> for
  whatever \<open>insert_one\<close> raises; both carry the text of the exception.
\<close>

datatype exn =
    UnboundLocalError
  | IndexError
  | TypeError
  | ValidationError
  | BackendError string
  | StoreError string

text \<open>
  The module-level \<open>client\<close> is \<open>None\<close> when no API key is configured. A configured
  client answers the system prompt and the user message with
  \<open>response.choices[0].message.content\<close>, or raises. The content is a text or \<open>None\<close>:
  the completion may carry no text.
\<close>

type_synonym backend = "string \<Rightarrow> string \<Rightarrow> exn + string option"

text \<open>
  The dictionary \<open>generate_code_with_ai\<close> returns. Its \<open>code\<close> is a text when it comes
  from a template and whatever the content was when it comes from the backend.
\<close>

record ai_result =
  result_code :: "string option"
  result_explanation :: string

definition text_result :: "generated \<Rightarrow> ai_result" where
  "text_result g = \<lparr>result_code = Some (code g), result_explanation = explanation g\<rparr>"

text \<open>
  The \<open>if\<close>/\<open>elif\<close> chain that binds \<open>system_prompt\<close>. For a request type outside the
  four known ones no branch runs and the variable stays unbound.
\<close>

definition system_prompt :: "string \<Rightarrow> string \<Rightarrow> string option" where
  "system_prompt request_type language =
     (if request_type = ''generate'' then
        Some (''You are an expert '' @ language @
          '' developer. Generate clean, production-ready code based on the user's request. \<newline>'' @
          ''            Provide complete, functional code with proper error handling, comments, and best practices.\<newline>'' @
          ''            Return only the code without explanations unless specifically asked.'')
      else if request_type = ''debug'' then
        Some (''You are an expert '' @ language @
          '' debugger. Analyze the provided code and fix any issues.\<newline>'' @
          ''            Explain what was wrong and provide the corrected version.\<newline>'' @
          ''            Format your response as: ISSUE: [explanation] FIXED CODE: [corrected code]'')
      else if request_type = ''explain'' then
        Some (''You are an expert '' @ language @
          '' developer. Explain the provided code in detail.\<newline>'' @
          ''            Break down what each part does, explain the logic, and provide insights about best practices.'')
      else if request_type = ''optimize'' then
        Some (''You are an expert '' @ language @
          '' developer. Optimize the provided code for better performance, readability, and maintainability.\<newline>'' @
          ''            Explain the optimizations made and provide the improved version.'')
      else None)"

text \<open>\<open>if code_input:\<close> is false for \<open>None\<close> and for the empty text.\<close>

definition user_message :: "string \<Rightarrow> string \<Rightarrow> string option \<Rightarrow> string" where
  "user_message prompt language code_input =
     (case code_input of
        None \<Rightarrow> prompt
      | Some c \<Rightarrow>
          if c = [] then prompt
          else prompt @ ''\<newline>\<newline>Code to work with:\<newline>```'' @ language @
               ''\<newline>'' @ c @ ''\<newline>```'')"

text \<open>
  The parsing of the backend's content at the end of the \<open>try\<close> block. The test
  \<open>"FIXED CODE:" in ai_response\<close> is only made for a debug request and raises
  \<open>TypeError\<close> when the content is \<open>None\<close>; \<open>parts[1]\<close> raises \<open>IndexError\<close> on a list
  with fewer than two pieces. Outside debug mode the content is returned as it is.
\<close>

definition parse_ai_response :: "string \<Rightarrow> string option \<Rightarrow> exn + ai_result" where
  "parse_ai_response request_type ai_response =
     (if request_type = ''debug'' then
        (case ai_response of
           None \<Rightarrow> Inl TypeError
         | Some text \<Rightarrow>
             if contains ''FIXED CODE:'' text then
               (case split_str ''FIXED CODE:'' text of
                  part0 # part1 # rest \<Rightarrow>
                    Inr \<lparr>result_code = Some (strip part1),
                         result_explanation = strip (replace_str ''ISSUE:'' [] part0)\<rparr>
                | _ \<Rightarrow> Inl IndexError)
             else Inr \<lparr>result_code = Some text,
                       result_explanation = ''Code generated successfully''\<rparr>)
      else Inr \<lparr>result_code = ai_response,
                result_explanation = ''Code generated successfully''\<rparr>)"

text \<open>
  What an operation does to the outside, in the order it does it: a call of the backend
  with its two messages, a line in the error log (the prefix and the exception it
  prints), a document written to a collection (the collection and the document's \<open>id\<close>).
\<close>

datatype event =
    BackendCall string string
  | LogError string exn
  | InsertOne string string

text \<open>
  The body of the \<open>try\<close> block once a client is there: the events it causes and its
  value or the exception that leaves it. Reading the unbound \<open>system_prompt\<close> raises
  while the arguments of the call are built, before anything is sent.
\<close>

definition ai_attempt ::
  "backend \<Rightarrow> string \<Rightarrow> string \<Rightarrow> string \<Rightarrow> string option \<Rightarrow> event list \<times> (exn + ai_result)" where
  "ai_attempt chat prompt language request_type code_input =
     (case system_prompt request_type language of
        None \<Rightarrow> ([], Inl UnboundLocalError)
      | Some sp \<Rightarrow>
          (let um = user_message prompt language code_input in
           case chat sp um of
             Inl e \<Rightarrow> ([BackendCall sp um], Inl e)
           | Inr ai_response \<Rightarrow> ([BackendCall sp um], parse_ai_response request_type ai_response)))"

definition generate_code_with_ai ::
  "backend option \<Rightarrow> string \<Rightarrow> string \<Rightarrow> string \<Rightarrow> string option \<Rightarrow> event list \<times> ai_result" where
  "generate_code_with_ai client prompt language request_type code_input =
     (case client of
        None \<Rightarrow> ([], text_result (get_template_code prompt language request_type))
      | Some chat \<Rightarrow>
          (case ai_attempt chat prompt language request_type code_input of
             (evs, Inr result) \<Rightarrow> (evs, result)
           | (evs, Inl e) \<Rightarrow>
               (evs @ [LogError ''AI generation error: '' e],
                text_result (get_template_code prompt language request_type))))"

section \<open>The routes\<close>

text \<open>
  The models. \<open>CodeRequest\<close> has the fields of \<open>CodeRequestCreate\<close> and two more, filled
  by their default factories \<open>uuid4\<close> and \<open>utcnow\<close>; a time stamp is a clock reading.
\<close>

record CodeRequestCreate =
  prompt :: string
  language :: string
  request_type :: string
  code_input :: "string option"

record CodeRequest = CodeRequestCreate +
  id' :: string
  timestamp :: nat

record CodeResponse =
  response_id :: string
  request_id :: string
  generated_code :: string
  response_explanation :: string
  response_language :: string
  response_timestamp :: nat


text \<open>
  The two collections of the database and the trace of events so far. \<open>insert_one\<close>
  appends the document, or raises and leaves the collection as it was.
\<close>

record world =
  code_requests :: "CodeRequest list"
  code_responses :: "CodeResponse list"
  trace :: "event list"

text \<open>
  What the surroundings answer during one operation: the client, the identifiers and
  clock readings drawn for the two documents, and whether each write raises.
\<close>

record env =
  client :: "backend option"
  request_uuid :: string
  request_now :: nat
  response_uuid :: string
  response_now :: nat
  insert_request_raises :: "exn option"
  insert_response_raises :: "exn option"

datatype http_error =
    HTTPException nat string exn
  | RequestValidationError string

definition insert_request :: "env \<Rightarrow> world \<Rightarrow> CodeRequest \<Rightarrow> exn + world" where
  "insert_request e w r =
     (case insert_request_raises e of
        Some x \<Rightarrow> Inl x
      | None \<Rightarrow> Inr (w\<lparr>code_requests := code_requests w @ [r],
                        trace := trace w @ [InsertOne ''code_requests'' (id' r)]\<rparr>))"

definition insert_response :: "env \<Rightarrow> world \<Rightarrow> CodeResponse \<Rightarrow> exn + world" where
  "insert_response e w r =
     (case insert_response_raises e of
        Some x \<Rightarrow> Inl x
      | None \<Rightarrow> Inr (w\<lparr>code_responses := code_responses w @ [r],
                        trace := trace w @ [InsertOne ''code_responses'' (response_id r)]\<rparr>))"

text \<open>The \<open>except\<close> clause of a route: log, then answer with status 500.\<close>

definition server_error :: "world \<Rightarrow> string \<Rightarrow> string \<Rightarrow> exn \<Rightarrow> world \<times> (http_error + 'a)" where
  "server_error w log_prefix detail_prefix x =
     (w\<lparr>trace := trace w @ [LogError log_prefix x]\<rparr>,
      Inl (HTTPException 500 detail_prefix x))"

text \<open>
  \<open>POST /generate-code\<close>, on a validated body. \<open>CodeResponse\<close> declares
  \<open>generated_code: str\<close>, so building the response from a result whose code is \<open>None\<close>
  raises a validation error; this happens inside the route's \<open>try\<close> and is answered
  like any other exception there.
\<close>

definition generate_code ::
  "env \<Rightarrow> world \<Rightarrow> CodeRequestCreate \<Rightarrow> world \<times> (http_error + CodeResponse)" where
  "generate_code e w request =
     (let code_request =
            \<lparr>prompt = prompt request, language = language request,
             request_type = request_type request, code_input = code_input request,
             id' = request_uuid e, timestamp = request_now e\<rparr>
      in case insert_request e w code_request of
           Inl x \<Rightarrow> server_error w ''Code generation error: '' ''Code generation failed: '' x
         | Inr w1 \<Rightarrow>
             (let (evs, result) =
                    generate_code_with_ai (client e) (prompt request) (language request)
                      (request_type request) (code_input request);
                  w2 = w1\<lparr>trace := trace w1 @ evs\<rparr>
              in case result_code result of
                   None \<Rightarrow>
                     server_error w2 ''Code generation error: '' ''Code generation failed: ''
                       ValidationError
                 | Some generated_text \<Rightarrow>
                     (let response =
                            \<lparr>response_id = response_uuid e, request_id = id' code_request,
                             generated_code = generated_text,
                             response_explanation = result_explanation result,
                             response_language = language request,
                             response_timestamp = response_now e\<rparr>
                      in case insert_response e w2 response of
                           Inl x \<Rightarrow>
                             server_error w2 ''Code generation error: ''
                               ''Code generation failed: '' x
                         | Inr w3 \<Rightarrow> (w3, Inr response))))"

text \<open>
  The body of \<open>POST /generate-code\<close> is a JSON object, here its text fields as an
  association list. The framework builds the \<open>CodeRequestCreate\<close> from it as the class
  declares: \<open>prompt\<close> has no default and must be there, \<open>language\<close> and \<open>request_type\<close>
  have defaults, \<open>code_input\<close> is optional. A body that does not validate is answered
  by the framework and the route is not entered.
\<close>

definition validate_CodeRequestCreate ::
  "(string \<times> string) list \<Rightarrow> http_error + CodeRequestCreate" where
  "validate_CodeRequestCreate body =
     (case map_of body ''prompt'' of
        None \<Rightarrow> Inl (RequestValidationError ''prompt'')
      | Some p \<Rightarrow>
          Inr \<lparr>prompt = p,
               language = dict_get body ''language'' ''javascript'',
               request_type = dict_get body ''request_type'' ''generate'',
               code_input = map_of body ''code_input''\<rparr>)"

definition post_generate_code ::
  "env \<Rightarrow> world \<Rightarrow> (string \<times> string) list \<Rightarrow> world \<times> (http_error + CodeResponse)" where
  "post_generate_code e w body =
     (case validate_CodeRequestCreate body of
        Inl v \<Rightarrow> (w, Inl v)
      | Inr request \<Rightarrow> generate_code e w request)"

text \<open>
  \<open>POST /debug-code\<close>. Nothing is written to the database, and the answer is a plain
  dictionary, so its \<open>fixed_code\<close> is whatever the result's code is.
\<close>

record DebugRequest =
  debug_code_text :: string
  debug_language :: string
  error_message :: "string option"

record DebugResponse =
  original_code :: string
  fixed_code :: "string option"
  debug_explanation :: string
  debug_response_language :: string

definition debug_prompt :: "DebugRequest \<Rightarrow> string" where
  "debug_prompt request =
     ''Debug this '' @ debug_language request @ '' code'' @
     (case error_message request of
        None \<Rightarrow> []
      | Some m \<Rightarrow> if m = [] then [] else '' that gives this error: '' @ m)"

definition debug_code ::
  "backend option \<Rightarrow> world \<Rightarrow> DebugRequest \<Rightarrow> world \<times> (http_error + DebugResponse)" where
  "debug_code cl w request =
     (let (evs, result) =
            generate_code_with_ai cl (debug_prompt request) (debug_language request)
              ''debug'' (Some (debug_code_text request))
      in (w\<lparr>trace := trace w @ evs\<rparr>,
          Inr \<lparr>original_code = debug_code_text request,
               fixed_code = result_code result,
               debug_explanation = result_explanation result,
               debug_response_language = debug_language request\<rparr>))"

text \<open>\<open>POST /explain-code\<close>, with \<open>code\<close> and \<open>language\<close> as its two parameters.\<close>

record ExplainResponse =
  explained_code :: string
  explain_explanation :: string
  explain_language :: string

definition explain_code ::
  "backend option \<Rightarrow> world \<Rightarrow> string \<Rightarrow> string \<Rightarrow> world \<times> (http_error + ExplainResponse)" where
  "explain_code cl w code_text lang =
     (let (evs, result) =
            generate_code_with_ai cl ''Explain this code in detail'' lang ''explain''
              (Some code_text)
      in (w\<lparr>trace := trace w @ evs\<rparr>,
          Inr \<lparr>explained_code = code_text,
               explain_explanation = result_explanation result,
               explain_language = lang\<rparr>))"

section \<open>Notions used to state the properties\<close>

text \<open>
  The text before and the text after the first occurrence of a separator, as
  \<open>s.partition(sep)\<close> gives them: without an occurrence the whole text is before and
  nothing is after.
\<close>

fun before_first :: "string \<Rightarrow> string \<Rightarrow> string" where
  "before_first sep [] = []"
| "before_first sep (c # cs) =
     (if starts_with sep (c # cs) then [] else c # before_first sep cs)"

fun after_first :: "string \<Rightarrow> string \<Rightarrow> string" where
  "after_first sep [] = []"
| "after_first sep (c # cs) =
     (if starts_with sep (c # cs) then drop (length sep) (c # cs) else after_first sep cs)"

text \<open>\<open>s.removeprefix(marker)\<close>\<close>

definition removeprefix :: "string \<Rightarrow> string \<Rightarrow> string" where
  "removeprefix marker s = (if starts_with marker s then drop (length marker) s else s)"

text \<open>
  The debug result in the specification's words, for a text that holds the marker: the
  explanation is the text before the first \<open>FIXED CODE:\<close> with a leading \<open>ISSUE:\<close>
  taken off, trimmed; the code is all the text after that first occurrence, trimmed.
\<close>

definition spec_debug_result :: "string \<Rightarrow> generated" where
  "spec_debug_result t =
     \<lparr>code = strip (after_first ''FIXED CODE:'' t),
      explanation = strip (removeprefix ''ISSUE:'' (before_first ''FIXED CODE:'' t))\<rparr>"

text \<open>Events that are writes to the database.\<close>

definition is_insert :: "event \<Rightarrow> bool" where
  "is_insert ev = (case ev of InsertOne c i \<Rightarrow> True | _ \<Rightarrow> False)"

text \<open>Concrete surroundings for the examples.\<close>

definition sample_request :: CodeRequestCreate where
  "sample_request =
     \<lparr>prompt = ''sort a list'', language = ''python'', request_type = ''generate'',
      code_input = None\<rparr>"

definition sample_env :: "backend option \<Rightarrow> env" where
  "sample_env cl =
     \<lparr>client = cl, request_uuid = ''r-1'', request_now = 1, response_uuid = ''s-1'',
      response_now = 2, insert_request_raises = None, insert_response_raises = None\<rparr>"

definition empty_world :: world where
  "empty_world = \<lparr>code_requests = [], code_responses = [], trace = []\<rparr>"

definition echo_backend :: backend where
  "echo_backend sp um = Inr (Some ''This code adds two numbers.'')"

text \<open>A backend whose completion carries no text.\<close>

definition null_backend :: backend where
  "null_backend sp um = Inr None"


section \<open>Facts about the string functions and the catalog\<close>

lemmas lower_defs =
  lower_def lower_char_def uppercase_def lowercase_def ascii_uppercase_def
  ascii_lowercase_def latin1_uppercase_def latin1_lowercase_def

lemma split_from_unfold:
  "sep \<noteq> [] \<Longrightarrow>
   split_from sep piece s =
     (piece @ before_first sep s) #
       (if contains sep s then split_from sep [] (after_first sep s) else [])"
proof (induction sep piece s rule: split_from.induct)
  case (1 sep piece)
  then show ?case by (cases sep) simp_all
next
  case (2 sep piece c cs)
  show ?case
  proof (cases "starts_with sep (c # cs)")
    case True
    with "2.prems" show ?thesis by simp
  next
    case False
    with "2.IH"(2) "2.prems" show ?thesis by simp
  qed
qed

lemma split_str_unfold:
  "sep \<noteq> [] \<Longrightarrow>
   split_str sep s =
     before_first sep s # (if contains sep s then split_str sep (after_first sep s) else [])"
  using split_from_unfold [of sep "[]" s] by (simp add: split_str_def)

lemma before_first_absent:
  "sep \<noteq> [] \<Longrightarrow> \<not> contains sep s \<Longrightarrow> before_first sep s = s"
  by (induction s) auto

lemma parse_debug_marked:
  assumes "contains ''FIXED CODE:'' t"
  shows "parse_ai_response ''debug'' (Some t) =
           Inr \<lparr>result_code =
                  Some (strip (before_first ''FIXED CODE:'' (after_first ''FIXED CODE:'' t))),
                result_explanation =
                  strip (replace_str ''ISSUE:'' [] (before_first ''FIXED CODE:'' t))\<rparr>"
proof -
  have ne: "''FIXED CODE:'' \<noteq> []" by simp
  have "split_str ''FIXED CODE:'' t =
          before_first ''FIXED CODE:'' t # split_str ''FIXED CODE:'' (after_first ''FIXED CODE:'' t)"
    using split_str_unfold [OF ne, of t] assms by simp
  also have "split_str ''FIXED CODE:'' (after_first ''FIXED CODE:'' t) =
          before_first ''FIXED CODE:'' (after_first ''FIXED CODE:'' t) #
            (if contains ''FIXED CODE:'' (after_first ''FIXED CODE:'' t)
             then split_str ''FIXED CODE:'' (after_first ''FIXED CODE:'' (after_first ''FIXED CODE:'' t))
             else [])"
    by (rule split_str_unfold [OF ne])
  finally show ?thesis
    using assms
    by (simp only: parse_ai_response_def simp_thms if_True list.case option.case)
qed









lemma template_texts_nonempty:
  "javascript_react_component \<noteq> []" "javascript_api_endpoint \<noteq> []"
  "javascript_function \<noteq> []" "python_function \<noteq> []" "python_class \<noteq> []"
  "python_api \<noteq> []"
  by (simp_all add: javascript_react_component_def javascript_api_endpoint_def
      javascript_function_def python_function_def python_class_def python_api_def)


lemma templates_javascript:
  "map_of templates ''javascript'' =
     Some [(''react_component'', javascript_react_component),
           (''api_endpoint'', javascript_api_endpoint),
           (''function'', javascript_function)]"
  by (simp add: templates_def)

lemma templates_cases:
  "map_of templates l = Some catalog \<Longrightarrow>
     (l = ''javascript'' \<and>
      catalog = [(''react_component'', javascript_react_component),
                 (''api_endpoint'', javascript_api_endpoint),
                 (''function'', javascript_function)]) \<or>
     (l = ''python'' \<and>
      catalog = [(''function'', python_function),
                 (''class'', python_class),
                 (''api'', python_api)])"
  by (auto simp: templates_def split: if_splits)

lemma generic_placeholder_nonempty:
  "code (generic_placeholder p l) \<noteq> []" "explanation (generic_placeholder p l) \<noteq> []"
  by (simp_all add: generic_placeholder_def)

lemma ai_attempt_no_insert:
  "ai_attempt chat p l rt ci = (evs, r) \<Longrightarrow> filter is_insert evs = []"
  by (auto simp: ai_attempt_def is_insert_def Let_def split: option.splits sum.splits)

lemma generate_code_with_ai_no_insert:
  "generate_code_with_ai cl p l rt ci = (evs, r) \<Longrightarrow> filter is_insert evs = []"
  by (auto simp: generate_code_with_ai_def is_insert_def
      split: option.splits sum.splits prod.splits dest: ai_attempt_no_insert)

text \<open>
  An exception that leaves the \<open>try\<close> block of the invoker is logged and the selector's
  result is returned in its place.
\<close>

lemma generate_code_with_ai_absorbs:
  "ai_attempt chat p l rt ci = (evs, Inl x) \<Longrightarrow>
   generate_code_with_ai (Some chat) p l rt ci =
     (evs @ [LogError ''AI generation error: '' x], text_result (get_template_code p l rt))"
  by (simp add: generate_code_with_ai_def)

text \<open>
  \<open>POST /generate-code\<close> answers with a server error exactly when the write of the
  request raises, or the invoker's result has no code, or the write of the response
  raises.
\<close>

lemma generate_code_server_error_iff:
  "(\<exists>err. snd (generate_code e w request) = Inl err) \<longleftrightarrow>
     insert_request_raises e \<noteq> None
     \<or> result_code (snd (generate_code_with_ai (client e) (prompt request) (language request)
                           (request_type request) (code_input request))) = None
     \<or> insert_response_raises e \<noteq> None"
  by (auto simp: generate_code_def insert_request_def insert_response_def server_error_def
      Let_def split: option.splits prod.splits)

text \<open>
  When both writes go through and an exception leaves the invoker's \<open>try\<close> block, the
  caller gets a response that carries the selector's result, and the exception is in
  the log.
\<close>

lemma generate_code_absorbs_exception:
  assumes "insert_request_raises e = None" and "insert_response_raises e = None"
    and "client e = Some chat"
    and "ai_attempt chat (prompt request) (language request) (request_type request)
           (code_input request) = (evs, Inl x)"
  shows "\<exists>w' response.
           generate_code e w request = (w', Inr response)
           \<and> generated_code response =
               code (get_template_code (prompt request) (language request)
                       (request_type request))
           \<and> response_explanation response =
               explanation (get_template_code (prompt request) (language request)
                              (request_type request))
           \<and> LogError ''AI generation error: '' x \<in> set (trace w')"
proof -
  from assms(3,4) have "generate_code_with_ai (client e) (prompt request) (language request)
      (request_type request) (code_input request) =
     (evs @ [LogError ''AI generation error: '' x],
      text_result (get_template_code (prompt request) (language request)
                     (request_type request)))"
    by (simp add: generate_code_with_ai_absorbs)
  with assms(1,2) show ?thesis
    by (simp add: generate_code_def insert_request_def insert_response_def Let_def
        text_result_def)
qed

section \<open>Properties of the response normalizer\<close>

text \<open>
  C1, as the code has it. For every text the backend returns in debug mode: if the text
  holds the marker \<open>FIXED CODE:\<close>, the explanation is the text before the first
  occurrence with every occurrence of \<open>ISSUE:\<close> removed, then trimmed, and, when the
  marker does not occur again behind its first occurrence, the code is all the text
  after it, trimmed. If the marker is absent the whole text is the code and the
  explanation is the fixed confirmation. No text makes the parsing raise.
\<close>

theorem debug_normalization:
  "(contains ''FIXED CODE:'' t \<longrightarrow>
      (\<exists>c. parse_ai_response ''debug'' (Some t) =
              Inr \<lparr>result_code = Some c,
                   result_explanation =
                     strip (replace_str ''ISSUE:'' [] (before_first ''FIXED CODE:'' t))\<rparr>)
      \<and> (\<not> contains ''FIXED CODE:'' (after_first ''FIXED CODE:'' t) \<longrightarrow>
           parse_ai_response ''debug'' (Some t) =
             Inr \<lparr>result_code = Some (strip (after_first ''FIXED CODE:'' t)),
                  result_explanation =
                    strip (replace_str ''ISSUE:'' [] (before_first ''FIXED CODE:'' t))\<rparr>))
   \<and> (\<not> contains ''FIXED CODE:'' t \<longrightarrow>
        parse_ai_response ''debug'' (Some t) =
          Inr \<lparr>result_code = Some t, result_explanation = ''Code generated successfully''\<rparr>)
   \<and> (\<exists>r. parse_ai_response ''debug'' (Some t) = Inr r)"
proof (cases "contains ''FIXED CODE:'' t")
  case True
  have ne: "''FIXED CODE:'' \<noteq> []" by simp
  note m = parse_debug_marked [OF True]
  have "\<not> contains ''FIXED CODE:'' (after_first ''FIXED CODE:'' t) \<Longrightarrow>
          before_first ''FIXED CODE:'' (after_first ''FIXED CODE:'' t) =
            after_first ''FIXED CODE:'' t"
    by (rule before_first_absent [OF ne])
  with True m show ?thesis
    by (simp del: contains.simps before_first.simps after_first.simps)
next
  case False
  then show ?thesis by (simp add: parse_ai_response_def)
qed

text \<open>
  The two texts of the specification: \<open>ISSUE: foo FIXED CODE: bar\<close> gives the
  explanation \<open>foo\<close> and the code \<open>bar\<close>, a text without the marker is the code.
\<close>

theorem debug_normalization_witness:
  "contains ''FIXED CODE:'' ''ISSUE: foo FIXED CODE: bar''
   \<and> \<not> contains ''FIXED CODE:'' (after_first ''FIXED CODE:'' ''ISSUE: foo FIXED CODE: bar'')
   \<and> parse_ai_response ''debug'' (Some ''ISSUE: foo FIXED CODE: bar'') =
       Inr \<lparr>result_code = Some ''bar'', result_explanation = ''foo''\<rparr>
   \<and> \<not> contains ''FIXED CODE:'' ''no marker here''
   \<and> parse_ai_response ''debug'' (Some ''no marker here'') =
       Inr \<lparr>result_code = Some ''no marker here'',
            result_explanation = ''Code generated successfully''\<rparr>"
  using debug_normalization [of "''ISSUE: foo FIXED CODE: bar''"]
    debug_normalization [of "''no marker here''"]
  by (simp add: strip_def isspace_def)

text \<open>
  C1 as it is worded fails. In the text below \<open>ISSUE:\<close> occurs a second time inside the
  explanation and \<open>FIXED CODE:\<close> a second time inside the code. The server removes both
  \<open>ISSUE:\<close> markers and keeps only the piece between the two \<open>FIXED CODE:\<close> markers;
  the wording keeps the inner \<open>ISSUE:\<close> and all the text after the first
  \<open>FIXED CODE:\<close>.
\<close>

theorem debug_normalization_counterexample:
  "parse_ai_response ''debug'' (Some ''ISSUE: a ISSUE: b FIXED CODE: c FIXED CODE: d'') =
     Inr \<lparr>result_code = Some ''c'', result_explanation = ''a  b''\<rparr>
   \<and> spec_debug_result ''ISSUE: a ISSUE: b FIXED CODE: c FIXED CODE: d'' =
     \<lparr>code = ''c FIXED CODE: d'', explanation = ''a ISSUE: b''\<rparr>"
  by (simp add: parse_ai_response_def split_str_def spec_debug_result_def strip_def
      isspace_def removeprefix_def)

section \<open>Properties of the template fallback selector\<close>

text \<open>
  C3. For every prompt, language and request type, with or without a catalog for the
  language, the selector returns a result whose code and whose explanation are not
  empty. The selector is a function of its three arguments and has no raising path:
  the catalog is only indexed under \<open>language in templates\<close> and every key is read
  with a default.
\<close>

theorem get_template_code_nonempty:
  "code (get_template_code p l rt) \<noteq> [] \<and> explanation (get_template_code p l rt) \<noteq> []"
proof (cases "map_of templates l")
  case None
  then show ?thesis
    by (simp add: get_template_code_def generic_placeholder_nonempty)
next
  case (Some catalog)
  from templates_cases [OF Some] show ?thesis
  proof
    assume "l = ''javascript'' \<and>
      catalog = [(''react_component'', javascript_react_component),
                 (''api_endpoint'', javascript_api_endpoint),
                 (''function'', javascript_function)]"
    with Some show ?thesis
      by (simp add: get_template_code_def Let_def dict_get_def template_texts_nonempty
          generic_placeholder_nonempty)
  next
    assume "l = ''python'' \<and>
      catalog = [(''function'', python_function),
                 (''class'', python_class),
                 (''api'', python_api)]"
    with Some show ?thesis
      by (simp add: get_template_code_def Let_def dict_get_def template_texts_nonempty
          generic_placeholder_nonempty)
  qed
qed

text \<open>
  C4. For a language with a catalog the branch is chosen by testing the lower-cased
  prompt in a fixed order: \<open>react\<close> or \<open>component\<close>, then \<open>api\<close>, \<open>endpoint\<close> or
  \<open>server\<close>, then \<open>function\<close>, then \<open>class\<close> (for Python). So a prompt that holds
  both \<open>react\<close> and \<open>function\<close> gets the result of the React branch and not that of the
  function branch.
\<close>

theorem react_precedes_function:
  assumes "map_of templates l = Some catalog"
  shows "explanation (get_template_code p l rt) =
           (if contains ''react'' (lower p) \<or> contains ''component'' (lower p)
              then ''Generated React component template''
            else if contains ''api'' (lower p) \<or> contains ''endpoint'' (lower p)
                    \<or> contains ''server'' (lower p)
              then ''Generated API template''
            else if contains ''function'' (lower p)
              then ''Generated function template''
            else if contains ''class'' (lower p) \<and> l = ''python''
              then ''Generated class template''
            else explanation (generic_placeholder p l))
         \<and> (contains ''react'' (lower p) \<and> contains ''function'' (lower p) \<longrightarrow>
              get_template_code p l rt =
                \<lparr>code = dict_get catalog ''react_component'' ''// Template not available'',
                 explanation = ''Generated React component template''\<rparr>
              \<and> explanation (get_template_code p l rt) \<noteq> ''Generated function template'')"
  using assms by (simp add: get_template_code_def)

theorem react_precedes_function_witness:
  "map_of templates ''javascript'' =
     Some [(''react_component'', javascript_react_component),
           (''api_endpoint'', javascript_api_endpoint),
           (''function'', javascript_function)]
   \<and> contains ''react'' (lower ''A React function'')
   \<and> contains ''function'' (lower ''A React function'')
   \<and> get_template_code ''A React function'' ''javascript'' ''generate'' =
       \<lparr>code = javascript_react_component,
        explanation = ''Generated React component template''\<rparr>"
proof -
  have 1: "contains ''react'' (lower ''A React function'')"
    by (simp add: lower_defs)
  have 2: "contains ''function'' (lower ''A React function'')"
    by (simp add: lower_defs)
  from react_precedes_function [OF templates_javascript, of "''A React function''" "''generate''"]
    1 2
  have "get_template_code ''A React function'' ''javascript'' ''generate'' =
       \<lparr>code = javascript_react_component,
        explanation = ''Generated React component template''\<rparr>"
    by (simp add: dict_get_def)
  with templates_javascript 1 2 show ?thesis by blast
qed

text \<open>
  C5. Without a client the backend invoker returns the selector's result for the same
  prompt, language and request type, and causes no event: the backend is not called.
  The prompt \<open>write a function to add two numbers\<close> for \<open>python\<close> gives the Python
  function template.
\<close>

theorem no_credential_uses_template:
  "generate_code_with_ai None p l rt ci = ([], text_result (get_template_code p l rt))
   \<and> generate_code_with_ai None ''write a function to add two numbers'' ''python'' rt ci =
       ([], \<lparr>result_code = Some python_function,
             result_explanation = ''Generated function template''\<rparr>)"
  by (simp add: generate_code_with_ai_def text_result_def get_template_code_def
      templates_def dict_get_def lower_defs)



text \<open>
  C9. The selector's result does not depend on the request type: any two request types
  give the same code and explanation. A debug request that the fallback serves gets
  what a generate request with the same prompt and language gets: the route
  \<open>/debug-code\<close> answers with a template picked by the keywords of its prompt.
\<close>

theorem fallback_ignores_request_type:
  "get_template_code p l rt = get_template_code p l rt'
   \<and> snd (generate_code_with_ai None p l ''debug'' ci) =
       text_result (get_template_code p l ''generate'')
   \<and> snd (debug_code None w request) =
       Inr \<lparr>original_code = debug_code_text request,
            fixed_code =
              Some (code (get_template_code (debug_prompt request) (debug_language request)
                            ''generate'')),
            debug_explanation =
              explanation (get_template_code (debug_prompt request) (debug_language request)
                             ''generate''),
            debug_response_language = debug_language request\<rparr>"
  by (simp add: get_template_code_def generate_code_with_ai_def debug_code_def text_result_def)

section \<open>Properties of the routes\<close>

text \<open>
  C2 fails on the code. The backend answers a generate request with a completion that
  carries no text, and neither write raises. Outside debug mode the invoker returns
  the missing content as the code without raising, so nothing is caught or logged
  there and no template is substituted; the route then fails to build the response
  and answers with status 500, the request stored and no response stored. For a debug
  request the same completion makes the marker test raise inside the invoker's \<open>try\<close>,
  and there the selector's result is returned.
\<close>

theorem generate_code_null_content:
  "insert_request_raises (sample_env (Some null_backend)) = None
   \<and> insert_response_raises (sample_env (Some null_backend)) = None
   \<and> snd (generate_code_with_ai (Some null_backend) ''sort a list'' ''python'' ''generate'' None) =
       \<lparr>result_code = None, result_explanation = ''Code generated successfully''\<rparr>
   \<and> snd (generate_code (sample_env (Some null_backend)) empty_world sample_request) =
       Inl (HTTPException 500 ''Code generation failed: '' ValidationError)
   \<and> map id' (code_requests
        (fst (generate_code (sample_env (Some null_backend)) empty_world sample_request))) =
       [''r-1'']
   \<and> code_responses
        (fst (generate_code (sample_env (Some null_backend)) empty_world sample_request)) = []
   \<and> snd (generate_code_with_ai (Some null_backend) ''sort a list'' ''python'' ''debug'' None) =
       text_result (get_template_code ''sort a list'' ''python'' ''debug'')"
  by (simp add: generate_code_def generate_code_with_ai_def ai_attempt_def system_prompt_def
      parse_ai_response_def null_backend_def sample_env_def sample_request_def
      empty_world_def insert_request_def server_error_def Let_def)

text \<open>
  C6. When \<open>POST /generate-code\<close> succeeds, one \<open>CodeRequest\<close> has been added to
  \<open>code_requests\<close> and one \<open>CodeResponse\<close>, the one returned, to \<open>code_responses\<close>; the
  response's \<open>request_id\<close> is the request's \<open>id\<close>; and in the trace the write of the
  request comes first, the write of the response last, with no write between them.
  When the operation fails, no response has been added, so no response is ever stored
  without its request.
\<close>

theorem generate_code_persists_pair:
  assumes "generate_code e w request = (w', out)"
  shows "case out of
           Inr response \<Rightarrow>
             (\<exists>code_request evs.
                code_requests w' = code_requests w @ [code_request]
                \<and> code_responses w' = code_responses w @ [response]
                \<and> request_id response = id' code_request
                \<and> trace w' =
                    trace w @ [InsertOne ''code_requests'' (id' code_request)] @ evs
                      @ [InsertOne ''code_responses'' (response_id response)]
                \<and> filter is_insert evs = [])
         | Inl err \<Rightarrow> code_responses w' = code_responses w"
proof (cases "insert_request_raises e")
  case (Some x)
  with assms show ?thesis
    by (auto simp: generate_code_def insert_request_def server_error_def Let_def)
next
  case None
  obtain evs result where
    g: "generate_code_with_ai (client e) (prompt request) (language request)
          (request_type request) (code_input request) = (evs, result)"
    by (cases "generate_code_with_ai (client e) (prompt request) (language request)
                 (request_type request) (code_input request)")
  note ni = generate_code_with_ai_no_insert [OF g]
  show ?thesis
  proof (cases "insert_response_raises e")
    case (Some x)
    with None g assms show ?thesis
      by (auto simp: generate_code_def insert_request_def insert_response_def
          server_error_def Let_def split: option.splits)
  next
    case n2: None
    with None g ni assms show ?thesis
      by (auto simp: generate_code_def insert_request_def insert_response_def
          server_error_def Let_def split: option.splits)
  qed
qed

theorem generate_code_persists_pair_witness:
  "\<exists>w' response.
     generate_code (sample_env None) empty_world sample_request = (w', Inr response)
     \<and> length (code_requests w') = 1 \<and> code_responses w' = [response]
     \<and> request_id response = ''r-1'' \<and> map id' (code_requests w') = [''r-1'']
     \<and> trace w' = [InsertOne ''code_requests'' ''r-1'', InsertOne ''code_responses'' ''s-1'']"
proof -
  obtain w' response where
    h: "generate_code (sample_env None) empty_world sample_request = (w', Inr response)"
    and r: "request_id response = ''r-1''" "response_id response = ''s-1''"
    and t: "trace w' = [InsertOne ''code_requests'' ''r-1'', InsertOne ''code_responses'' ''s-1'']"
    by (simp add: generate_code_def insert_request_def insert_response_def Let_def
        sample_env_def empty_world_def generate_code_with_ai_def text_result_def)
  from generate_code_persists_pair [OF h] obtain code_request evs where
    c: "code_requests w' = code_requests empty_world @ [code_request]"
       "code_responses w' = code_responses empty_world @ [response]"
       "request_id response = id' code_request"
    by auto
  from c r have "length (code_requests w') = 1" "code_responses w' = [response]"
    "map id' (code_requests w') = [''r-1'']"
    by (simp_all add: empty_world_def)
  with h r t show ?thesis by simp
qed

text \<open>
  C8, as the code has it. The body of \<open>POST /generate-code\<close> must hold \<open>prompt\<close>; a body
  without it is answered with a validation error and the world is as it was: no
  backend call and no write. \<open>language\<close> need not be there: a body with a prompt and
  no language is handled as the request with the language \<open>javascript\<close> (and the
  request type \<open>generate\<close> when that is absent too).
\<close>

theorem post_generate_code_validation:
  "(map_of body ''prompt'' = None \<longrightarrow>
      post_generate_code e w body = (w, Inl (RequestValidationError ''prompt'')))
   \<and> (map_of body ''prompt'' = Some p \<and> map_of body ''language'' = None \<longrightarrow>
        post_generate_code e w body =
          generate_code e w
            \<lparr>prompt = p, language = ''javascript'',
             request_type = dict_get body ''request_type'' ''generate'',
             code_input = map_of body ''code_input''\<rparr>)"
  by (simp add: post_generate_code_def validate_CodeRequestCreate_def dict_get_def)

theorem post_generate_code_validation_witness:
  "map_of [(''language'', ''python'')] ''prompt'' = None
   \<and> post_generate_code (sample_env None) empty_world [(''language'', ''python'')] =
       (empty_world, Inl (RequestValidationError ''prompt''))
   \<and> map_of [(''prompt'', ''hi'')] ''prompt'' = Some ''hi''
   \<and> map_of [(''prompt'', ''hi'')] ''language'' = None
   \<and> post_generate_code (sample_env None) empty_world [(''prompt'', ''hi'')] =
       generate_code (sample_env None) empty_world
         \<lparr>prompt = ''hi'', language = ''javascript'', request_type = ''generate'',
          code_input = None\<rparr>"
  using post_generate_code_validation [of "[(''language'', ''python'')]" "sample_env None"
      empty_world "''hi''"]
    post_generate_code_validation [of "[(''prompt'', ''hi'')]" "sample_env None"
      empty_world "''hi''"]
  by (simp add: dict_get_def)

text \<open>
  C8 as it is worded fails where it says that the language is validated to be present:
  the body that holds only a prompt has no language and validates.
\<close>

theorem language_required_counterexample:
  "map_of [(''prompt'', ''hi'')] ''language'' = None
   \<and> validate_CodeRequestCreate [(''prompt'', ''hi'')] =
       Inr \<lparr>prompt = ''hi'', language = ''javascript'', request_type = ''generate'',
            code_input = None\<rparr>"
  by (simp add: validate_CodeRequestCreate_def dict_get_def)

text \<open>
  C10. \<open>POST /explain-code\<close> always answers, and the \<open>code\<close> of its answer is the code
  submitted. When the backend returns, what it returns becomes the \<open>code\<close> of the
  invoker's result, which the route does not read, and the explanation returned is
  the constant \<open>Code generated successfully\<close> whatever the backend's text.
\<close>

theorem explain_code_result:
  "(\<exists>w' expl. explain_code cl w c l =
       (w', Inr \<lparr>explained_code = c, explain_explanation = expl, explain_language = l\<rparr>))
   \<and> (cl = Some chat \<and> system_prompt ''explain'' l = Some sp
        \<and> chat sp (user_message ''Explain this code in detail'' l (Some c)) = Inr content \<longrightarrow>
        snd (generate_code_with_ai cl ''Explain this code in detail'' l ''explain'' (Some c)) =
          \<lparr>result_code = content, result_explanation = ''Code generated successfully''\<rparr>
        \<and> snd (explain_code cl w c l) =
          Inr \<lparr>explained_code = c, explain_explanation = ''Code generated successfully'',
               explain_language = l\<rparr>)"
proof (intro conjI impI)
  show "\<exists>w' expl. explain_code cl w c l =
       (w', Inr \<lparr>explained_code = c, explain_explanation = expl, explain_language = l\<rparr>)"
    by (simp add: explain_code_def split: prod.splits)
next
  assume h: "cl = Some chat \<and> system_prompt ''explain'' l = Some sp
        \<and> chat sp (user_message ''Explain this code in detail'' l (Some c)) = Inr content"
  then have g: "generate_code_with_ai cl ''Explain this code in detail'' l ''explain'' (Some c) =
      ([BackendCall sp (user_message ''Explain this code in detail'' l (Some c))],
       \<lparr>result_code = content, result_explanation = ''Code generated successfully''\<rparr>)"
    by (simp add: generate_code_with_ai_def ai_attempt_def parse_ai_response_def)
  then show "snd (generate_code_with_ai cl ''Explain this code in detail'' l ''explain'' (Some c)) =
          \<lparr>result_code = content, result_explanation = ''Code generated successfully''\<rparr>"
    by simp
  from g show "snd (explain_code cl w c l) =
          Inr \<lparr>explained_code = c, explain_explanation = ''Code generated successfully'',
               explain_language = l\<rparr>"
    by (simp add: explain_code_def)
qed

theorem explain_code_result_witness:
  "(\<exists>sp. system_prompt ''explain'' ''python'' = Some sp
      \<and> echo_backend sp (user_message ''Explain this code in detail'' ''python''
                          (Some ''x = 1 + 2''))
          = Inr (Some ''This code adds two numbers.''))
   \<and> snd (explain_code (Some echo_backend) empty_world ''x = 1 + 2'' ''python'') =
       Inr \<lparr>explained_code = ''x = 1 + 2'',
            explain_explanation = ''Code generated successfully'',
            explain_language = ''python''\<rparr>"
proof -
  obtain sp where sp: "system_prompt ''explain'' ''python'' = Some sp"
    by (simp add: system_prompt_def)
  have b: "echo_backend sp (user_message ''Explain this code in detail'' ''python''
                             (Some ''x = 1 + 2''))
          = Inr (Some ''This code adds two numbers.'')"
    by (simp add: echo_backend_def)
  from explain_code_result [of "Some echo_backend" empty_world "''x = 1 + 2''" "''python''"
      echo_backend sp "Some ''This code adds two numbers.''"] sp b
  show ?thesis by blast
qed

end
